theory Spec2Isabelle
  imports Complex_Main "HOL-Library.Word"
begin

section \<open>The readiness check of the OpenTelemetry operator (hack/check-operator-ready.go)\<close>

text \<open>
  The program is one Go \<^verbatim>\<open>main\<close> that loads a kubeconfig, builds a cluster client and
  runs two polls through \<^verbatim>\<open>wait.Poll\<close> of \<^verbatim>\<open>k8s.io/apimachinery/pkg/util/wait\<close>: the first
  probes the operator's deployment with \<^verbatim>\<open>Get\<close>, the second creates a collector instance
  with \<^verbatim>\<open>Create\<close>. The body of \<^verbatim>\<open>wait.Poll\<close> is not part of the source file; the poller is
  therefore given twice: as a parameter of \<^verbatim>\<open>main\<close>, and as the \<open>Poll\<close> that the
  specification describes.
\<close>

subsection \<open>Errors, probe results and outcomes\<close>

text \<open>A Go \<^verbatim>\<open>error\<close> is represented by its message; \<^verbatim>\<open>nil\<close> is \<open>None\<close>.\<close>

type_synonym error = string

text \<open>What one probe attempt reports, and how a poll ends (specification, section 4.1).\<close>

datatype probe = Success | Retry | FatalError error

datatype outcome = Succeeded | TimedOut | Failed error

subsection \<open>The poller of the specification\<close>

text \<open>
  A \<open>PollSpec\<close> has an interval, a timeout (both non-negative durations, in nanoseconds)
  and a side-effecting condition: a function of the state that returns the probe result
  and the state after the attempt.
\<close>

record 's PollSpec =
  interval :: nat
  timeout :: nat
  condition :: "'s \<Rightarrow> probe \<times> 's"

text \<open>
  A poll reports its outcome, how often the condition was invoked, how often the poller
  slept for \<open>interval\<close>, and the state after the last invocation.
\<close>

record 's poll_result =
  outcome :: outcome
  invocations :: nat
  sleeps :: nat
  final :: 's

text \<open>
  Modelled from the spec: \<^verbatim>\<open>wait.Poll\<close>, whose body lies outside the source file (section 4.1,
  ``Behavior'' and ``Edge case policy''). The condition is invoked at once. \<open>Success\<close>
  returns success with no wait; \<open>FatalError\<close> stops the poll and its error is handed
  back; on \<open>Retry\<close> a zero timeout ends the poll after that single attempt with no wait,
  and otherwise the poller sleeps for \<open>interval\<close> and invokes the condition again unless
  the cumulative elapsed time now exceeds \<open>timeout\<close> (an attempt exactly at the timeout
  instant is still made). The clock is the poller's own: the elapsed time after \<open>k\<close>
  sleeps is \<open>k * interval\<close>. A poll that never ends has the value \<open>None\<close>.
\<close>

partial_function (option) poll_from :: "'s PollSpec \<Rightarrow> nat \<Rightarrow> 's \<Rightarrow> 's poll_result option" where
  "poll_from spec k s =
     (case fst (condition spec s) of
        Success \<Rightarrow>
          Some \<lparr>outcome = Succeeded, invocations = k + 1, sleeps = k,
                final = snd (condition spec s)\<rparr>
      | FatalError e \<Rightarrow>
          Some \<lparr>outcome = Failed e, invocations = k + 1, sleeps = k,
                final = snd (condition spec s)\<rparr>
      | Retry \<Rightarrow>
          if timeout spec = 0 then
            Some \<lparr>outcome = TimedOut, invocations = k + 1, sleeps = k,
                  final = snd (condition spec s)\<rparr>
          else if timeout spec < (k + 1) * interval spec then
            Some \<lparr>outcome = TimedOut, invocations = k + 1, sleeps = k + 1,
                  final = snd (condition spec s)\<rparr>
          else poll_from spec (k + 1) (snd (condition spec s)))"

declare poll_from.simps [code]

definition Poll :: "'s PollSpec \<Rightarrow> 's \<Rightarrow> 's poll_result option" where
  "Poll spec s = poll_from spec 0 s"

text \<open>The state after \<open>j\<close> invocations of a condition that started in \<open>s\<close>.\<close>

definition after :: "('s \<Rightarrow> probe \<times> 's) \<Rightarrow> nat \<Rightarrow> 's \<Rightarrow> 's" where
  "after c j s = ((\<lambda>x. snd (c x)) ^^ j) s"

text \<open>The outcome that reflects a single attempt, when no further attempt is made.\<close>

definition attempt_outcome :: "probe \<Rightarrow> outcome" where
  "attempt_outcome p =
     (case p of Success \<Rightarrow> Succeeded | Retry \<Rightarrow> TimedOut | FatalError e \<Rightarrow> Failed e)"

text \<open>
  A fake condition with deterministic behaviour: its state counts the invocations made so
  far, and invocation number \<open>n\<close> (counted from 0) reports \<open>f n\<close>.
\<close>

definition scripted :: "(nat \<Rightarrow> probe) \<Rightarrow> nat \<Rightarrow> probe \<times> nat" where
  "scripted f n = (f n, Suc n)"

subsection \<open>The environment and the observable behaviour of the program\<close>

text \<open>
  Everything the program does to its surroundings is recorded in order: lines on standard
  output (\<^verbatim>\<open>fmt.Println\<close>), lines on standard error (the builtin \<^verbatim>\<open>println\<close>) and the calls
  of the cluster client. \<open>StderrIface m e\<close> is \<^verbatim>\<open>println(m, err)\<close> with the error passed
  as an interface value, whose printed form is left to the Go runtime.
\<close>

datatype event =
    Stdout string
  | Stderr string
  | StderrIface string error
  | Get
  | Create
  | Delete

record world =
  trace :: "event list"
  gets :: nat
  creates :: nat
  deletes :: nat

definition start :: world where
  "start = \<lparr>trace = [], gets = 0, creates = 0, deletes = 0\<rparr>"

text \<open>
  The surroundings answer the program: the parsed \<^verbatim>\<open>--timeout\<close> flag (a Go \<^verbatim>\<open>int\<close>, taken
  as 64 bits wide), the error of \<^verbatim>\<open>clientcmd.BuildConfigFromFlags\<close>, the error of
  \<^verbatim>\<open>client.New\<close>, and the error of the \<open>n\<close>-th call of \<^verbatim>\<open>Get\<close>, \<^verbatim>\<open>Create\<close> and \<^verbatim>\<open>Delete\<close>
  (counted from 0). Scheme registration in \<^verbatim>\<open>init\<close> and flag parsing precede what is
  modelled here; the objects that \<^verbatim>\<open>Get\<close> and \<^verbatim>\<open>Create\<close> fill in are never read by the
  program and are left out.
\<close>

record env =
  timeout_flag :: "64 word"
  kubeconfig_err :: "error option"
  client_err :: "error option"
  get_err :: "nat \<Rightarrow> error option"
  create_err :: "nat \<Rightarrow> error option"
  delete_err :: "nat \<Rightarrow> error option"

definition println :: "string \<Rightarrow> world \<Rightarrow> world" where
  "println l w = w\<lparr>trace := trace w @ [Stdout l]\<rparr>"

definition client_Get :: "env \<Rightarrow> world \<Rightarrow> error option \<times> world" where
  "client_Get c w = (get_err c (gets w), w\<lparr>trace := trace w @ [Get], gets := gets w + 1\<rparr>)"

definition client_Create :: "env \<Rightarrow> world \<Rightarrow> error option \<times> world" where
  "client_Create c w =
     (create_err c (creates w), w\<lparr>trace := trace w @ [Create], creates := creates w + 1\<rparr>)"

definition client_Delete :: "env \<Rightarrow> world \<Rightarrow> error option \<times> world" where
  "client_Delete c w =
     (delete_err c (deletes w), w\<lparr>trace := trace w @ [Delete], deletes := deletes w + 1\<rparr>)"

subsection \<open>The program\<close>

text \<open>
  A \<^verbatim>\<open>wait.ConditionFunc\<close> is \<^verbatim>\<open>func() (done bool, err error)\<close>; \<^verbatim>\<open>wait.Poll\<close> takes two
  durations (\<^verbatim>\<open>int64\<close> nanoseconds) and a condition and returns an error. A poller that
  never returns has the value \<open>None\<close>.
\<close>

type_synonym ConditionFunc = "world \<Rightarrow> (bool \<times> error option) \<times> world"

type_synonym poller =
  "64 word \<Rightarrow> 64 word \<Rightarrow> ConditionFunc \<Rightarrow> world \<Rightarrow> (error option \<times> world) option"

text \<open>Lines 56 and 57: \<^verbatim>\<open>500 * time.Millisecond\<close> and \<^verbatim>\<open>time.Duration(timeout) * time.Second\<close>.\<close>

definition pollInterval :: "64 word" where
  "pollInterval = 500 * 1000000"

definition timeoutPoll :: "env \<Rightarrow> 64 word" where
  "timeoutPoll c = timeout_flag c * 1000000000"

text \<open>Lines 74 to 88: the condition of the first poll reads the operator's deployment.\<close>

definition deployment_condition :: "env \<Rightarrow> ConditionFunc" where
  "deployment_condition c w =
     (case fst (client_Get c w) of
        Some e \<Rightarrow> ((False, None), println e (snd (client_Get c w)))
      | None \<Rightarrow> ((True, None), snd (client_Get c w)))"

text \<open>Lines 110 to 120: the condition of the second poll creates the collector instance.\<close>

definition collector_condition :: "env \<Rightarrow> ConditionFunc" where
  "collector_condition c w =
     (case fst (client_Create c w) of
        Some e \<Rightarrow> ((False, None), println e (snd (client_Create c w)))
      | None \<Rightarrow> ((True, None), snd (client_Create c w)))"

definition first_poll :: "poller \<Rightarrow> env \<Rightarrow> (error option \<times> world) option" where
  "first_poll poll c =
     poll pollInterval (timeoutPoll c) (deployment_condition c)
       (println ''Waiting until the OTEL Collector Operator is deployed'' start)"

text \<open>
  Lines 90 to 109, between the two polls: the error of the first poll is printed if there
  is one, the success line is printed, the collector is deleted with the result of
  \<^verbatim>\<open>Delete\<close> dropped, and the second check is announced.
\<close>

definition after_first_poll :: "env \<Rightarrow> error option \<Rightarrow> world \<Rightarrow> world" where
  "after_first_poll c err w =
     (let w1 = (case err of Some e \<Rightarrow> println e w | None \<Rightarrow> w);
          w2 = println ''OTEL Collector Operator is deployed properly!'' w1;
          w3 = snd (client_Delete c w2)
      in println ''Ensure the creation of OTEL Collectors is available'' w3)"

definition second_poll :: "poller \<Rightarrow> env \<Rightarrow> world \<Rightarrow> (error option \<times> world) option" where
  "second_poll poll c w = poll pollInterval (timeoutPoll c) (collector_condition c) w"

text \<open>How the process ends: its exit code and everything it did.\<close>

record process =
  exit_code :: nat
  world :: world

text \<open>Lines 122 to 127: what follows the second poll.\<close>

definition after_second_poll :: "env \<Rightarrow> error option \<Rightarrow> world \<Rightarrow> process" where
  "after_second_poll c err w =
     (case err of
        Some e \<Rightarrow> \<lparr>exit_code = 1, world = println e w\<rparr>
      | None \<Rightarrow> \<lparr>exit_code = 0, world = snd (client_Delete c w)\<rparr>)"

definition main :: "poller \<Rightarrow> env \<Rightarrow> process option" where
  "main poll c =
     (case kubeconfig_err c of
        Some e \<Rightarrow>
          Some \<lparr>exit_code = 1,
                world = start\<lparr>trace := [Stderr (''Error reading the kubeconfig: '' @ e)]\<rparr>\<rparr>
      | None \<Rightarrow>
         (case client_err c of
            Some e \<Rightarrow>
              Some \<lparr>exit_code = 1,
                    world = start\<lparr>trace := [StderrIface ''Creating the Kubernetes client'' e]\<rparr>\<rparr>
          | None \<Rightarrow>
             (case first_poll poll c of
                None \<Rightarrow> None
              | Some r1 \<Rightarrow>
                 (case second_poll poll c (after_first_poll c (fst r1) (snd r1)) of
                    None \<Rightarrow> None
                  | Some r2 \<Rightarrow> Some (after_second_poll c (fst r2) (snd r2))))))"

subsection \<open>The program run with the poller of the specification\<close>

text \<open>
  Modelled from the spec: the bridge between Go's \<^verbatim>\<open>wait.Poll\<close> and \<open>Poll\<close> (section 4.1): a
  condition's \<^verbatim>\<open>(true, nil)\<close> is \<open>Success\<close>, \<^verbatim>\<open>(false, nil)\<close> is \<open>Retry\<close>, a non-nil error is
  \<open>FatalError\<close>; \<open>Succeeded\<close> is the \<^verbatim>\<open>nil\<close> error, \<open>TimedOut\<close> the library's timeout error,
  \<open>Failed e\<close> the error \<open>e\<close>. The specification's durations are non-negative: a negative
  Go duration is taken as zero.
\<close>

definition probe_of :: "bool \<times> error option \<Rightarrow> probe" where
  "probe_of r =
     (case snd r of Some e \<Rightarrow> FatalError e | None \<Rightarrow> if fst r then Success else Retry)"

definition ErrWaitTimeout :: error where
  "ErrWaitTimeout = ''timed out waiting for the condition''"

definition error_of :: "outcome \<Rightarrow> error option" where
  "error_of out =
     (case out of Succeeded \<Rightarrow> None | TimedOut \<Rightarrow> Some ErrWaitTimeout | Failed e \<Rightarrow> Some e)"

definition poll_spec :: "64 word \<Rightarrow> 64 word \<Rightarrow> ConditionFunc \<Rightarrow> world PollSpec" where
  "poll_spec i t f =
     \<lparr>interval = nat (sint i), timeout = nat (sint t),
      condition = (\<lambda>w. (probe_of (fst (f w)), snd (f w)))\<rparr>"

definition wait_Poll :: poller where
  "wait_Poll i t f w =
     (case Poll (poll_spec i t f) w of
        None \<Rightarrow> None
      | Some r \<Rightarrow> Some (error_of (outcome r), final r))"

text \<open>
  An environment in which every call succeeds, run with \<^verbatim>\<open>--timeout 1\<close>; the example runs
  below change one answer at a time.
\<close>

definition healthy :: env where
  "healthy =
     \<lparr>timeout_flag = 1, kubeconfig_err = None, client_err = None,
      get_err = (\<lambda>n. None), create_err = (\<lambda>n. None), delete_err = (\<lambda>n. None)\<rparr>"

subsection \<open>Properties of the poller\<close>

lemma after_Suc: "after c (Suc j) s = snd (c (after c j s))"
  by (simp add: after_def)

lemma after_0: "after c 0 s = s"
  by (simp add: after_def)

lemma after_scripted: "after (scripted f) j s = s + j"
  by (induction j) (simp_all add: after_0 after_Suc scripted_def)

lemma poll_from_retries_then_success:
  assumes retry: "\<forall>j<k. fst (condition spec (after (condition spec) j s)) = Retry"
    and succ: "fst (condition spec (after (condition spec) k s)) = Success"
    and time: "k * interval spec < timeout spec"
    and "m \<le> k"
  shows "poll_from spec m (after (condition spec) m s) =
           Some \<lparr>outcome = Succeeded, invocations = k + 1, sleeps = k,
                 final = after (condition spec) (k + 1) s\<rparr>"
  using \<open>m \<le> k\<close>
proof (induction "k - m" arbitrary: m)
  case 0
  then have "m = k" by simp
  with succ show ?case
    by (simp add: poll_from.simps [of spec k] after_Suc)
next
  case (Suc d)
  then have lt: "m < k" and d: "d = k - (m + 1)" and le: "m + 1 \<le> k" by simp_all
  from lt retry have r: "fst (condition spec (after (condition spec) m s)) = Retry" by simp
  from le have "(m + 1) * interval spec \<le> k * interval spec" by (rule mult_le_mono1)
  with time have nt: "\<not> timeout spec < (m + 1) * interval spec" and nz: "timeout spec \<noteq> 0" by simp_all
  have "poll_from spec m (after (condition spec) m s) =
        poll_from spec (m + 1) (after (condition spec) (m + 1) s)"
    using r nt nz by (simp add: poll_from.simps [of spec m] after_Suc)
  also have "\<dots> = Some \<lparr>outcome = Succeeded, invocations = k + 1, sleeps = k,
                 final = after (condition spec) (k + 1) s\<rparr>"
    using Suc.hyps(1) [OF d le] .
  finally show ?case .
qed

lemma poll_from_always_retry:
  assumes retry: "\<forall>s'. fst (condition spec s') = Retry"
    and I: "0 < interval spec" and T: "0 < timeout spec"
    and "k \<le> timeout spec div interval spec"
  shows "poll_from spec k (after (condition spec) k s) =
           Some \<lparr>outcome = TimedOut, invocations = timeout spec div interval spec + 1,
                 sleeps = timeout spec div interval spec + 1,
                 final = after (condition spec) (timeout spec div interval spec + 1) s\<rparr>"
  using \<open>k \<le> timeout spec div interval spec\<close>
proof (induction "timeout spec div interval spec - k" arbitrary: k)
  case 0
  then have k: "timeout spec div interval spec = k" by simp
  then have "timeout spec div interval spec < k + 1" by simp
  then have "timeout spec < (k + 1) * interval spec"
    using I div_less_iff_less_mult [of "interval spec" "timeout spec" "k + 1"] by blast
  then have "poll_from spec k (after (condition spec) k s) =
      Some \<lparr>outcome = TimedOut, invocations = k + 1, sleeps = k + 1,
            final = after (condition spec) (k + 1) s\<rparr>"
    using retry T by (simp add: poll_from.simps [of spec k] after_Suc)
  then show ?case by (simp add: k)
next
  case (Suc d)
  then have le: "k + 1 \<le> timeout spec div interval spec"
    and d: "d = timeout spec div interval spec - (k + 1)"
    by simp_all
  from le have "\<not> timeout spec div interval spec < k + 1" by simp
  then have nt: "\<not> timeout spec < (k + 1) * interval spec"
    using I div_less_iff_less_mult [of "interval spec" "timeout spec" "k + 1"] by blast
  have "poll_from spec k (after (condition spec) k s) =
        poll_from spec (k + 1) (after (condition spec) (k + 1) s)"
    using retry T nt by (simp add: poll_from.simps [of spec k] after_Suc)
  with Suc.hyps(1) [OF d le] show ?case by simp
qed

lemma poll_from_returns:
  assumes "0 < interval spec"
  shows "\<exists>r. poll_from spec k s = Some r"
proof (induction "timeout spec - k * interval spec" arbitrary: k s rule: less_induct)
  case less
  show ?case
  proof (cases "fst (condition spec s) = Retry \<and> timeout spec \<noteq> 0 \<and>
                \<not> timeout spec < (k + 1) * interval spec")
    case True
    have "(k + 1) * interval spec = k * interval spec + interval spec" by simp
    with True assms
    have "timeout spec - (k + 1) * interval spec < timeout spec - k * interval spec"
      by arith
    from less [OF this]
    obtain r where "poll_from spec (k + 1) (snd (condition spec s)) = Some r" by blast
    with True show ?thesis by (simp add: poll_from.simps [of spec k s])
  next
    case False
    then show ?thesis
      by (cases "fst (condition spec s)") (auto simp add: poll_from.simps [of spec k s])
  qed
qed

lemma poll_from_no_fatal:
  assumes "poll_from spec k s = Some r"
  shows "(\<forall>s' e. fst (condition spec s') \<noteq> FatalError e) \<longrightarrow>
         outcome r = Succeeded \<or> outcome r = TimedOut"
  using assms
proof (induction rule: poll_from.raw_induct [rotated 1, consumes 1])
  case (1 poll_from spec k s r)
  show ?case
  proof
    assume nf: "\<forall>s' e. fst (condition spec s') \<noteq> FatalError e"
    show "outcome r = Succeeded \<or> outcome r = TimedOut"
    proof (cases "fst (condition spec s)")
      case Success
      with "1.hyps" show ?thesis by auto
    next
      case Retry
      with "1.hyps" "1.IH" nf show ?thesis by (auto split: if_splits)
    next
      case (FatalError e)
      with nf show ?thesis by simp
    qed
  qed
qed

text \<open>
  C1. If the condition returns \<open>Success\<close> on every invocation, the poll invokes it at
  once, before any sleep, and returns \<open>Succeeded\<close> after exactly one invocation, whatever
  the timeout (and the interval) is.
\<close>

theorem Poll_always_success:
  assumes "\<forall>s'. fst (condition spec s') = Success"
  shows "Poll spec s =
           Some \<lparr>outcome = Succeeded, invocations = 1, sleeps = 0,
                 final = snd (condition spec s)\<rparr>"
  using assms by (simp add: Poll_def poll_from.simps [of spec 0 s])

theorem Poll_always_success_witness:
  "(\<forall>s'. fst (condition \<lparr>interval = 500000000, timeout = 0,
                          condition = scripted (\<lambda>n. Success)\<rparr> s') = Success) \<and>
   Poll \<lparr>interval = 500000000, timeout = 0, condition = scripted (\<lambda>n. Success)\<rparr> 0 =
     Some \<lparr>outcome = Succeeded, invocations = 1, sleeps = 0, final = 1\<rparr>"
  using Poll_always_success [of "\<lparr>interval = 500000000, timeout = 0,
                                  condition = scripted (\<lambda>n. Success)\<rparr>" 0]
  by (simp add: scripted_def)

text \<open>
  C3. With a timeout of zero the poll makes exactly one attempt and does not wait: the
  condition is invoked once, the poller never sleeps, and the outcome reflects that single
  attempt. In particular, if the condition always returns \<open>Retry\<close>, the poll returns
  \<open>TimedOut\<close> after exactly one invocation.
\<close>

theorem Poll_zero_timeout:
  assumes "timeout spec = 0"
  shows "Poll spec s =
           Some \<lparr>outcome = attempt_outcome (fst (condition spec s)), invocations = 1, sleeps = 0,
                 final = snd (condition spec s)\<rparr> \<and>
         ((\<forall>s'. fst (condition spec s') = Retry) \<longrightarrow>
          Poll spec s =
            Some \<lparr>outcome = TimedOut, invocations = 1, sleeps = 0,
                  final = snd (condition spec s)\<rparr>)"
  using assms
  by (simp add: Poll_def poll_from.simps [of spec 0 s] attempt_outcome_def split: probe.splits)

theorem Poll_zero_timeout_witness:
  "timeout \<lparr>interval = 500000000, timeout = 0, condition = scripted (\<lambda>n. Retry)\<rparr> = 0 \<and>
   (\<forall>s'. fst (condition \<lparr>interval = 500000000, timeout = 0, condition = scripted (\<lambda>n. Retry)\<rparr> s') = Retry) \<and>
   Poll \<lparr>interval = 500000000, timeout = 0, condition = scripted (\<lambda>n. Retry)\<rparr> 0 =
     Some \<lparr>outcome = TimedOut, invocations = 1, sleeps = 0, final = 1\<rparr>"
  using Poll_zero_timeout [of "\<lparr>interval = 500000000, timeout = 0, condition = scripted (\<lambda>n. Retry)\<rparr>" 0]
  by (simp add: scripted_def attempt_outcome_def)

text \<open>
  C4. If the condition returns \<open>Retry\<close> on its first \<open>k\<close> invocations and \<open>Success\<close> on
  invocation \<open>k + 1\<close>, and \<open>k * interval < timeout\<close>, the poll returns \<open>Succeeded\<close> after
  exactly \<open>k + 1\<close> invocations (and \<open>k\<close> sleeps).
\<close>

theorem Poll_retries_then_success:
  assumes "\<forall>j<k. fst (condition spec (after (condition spec) j s)) = Retry"
    and "fst (condition spec (after (condition spec) k s)) = Success"
    and "k * interval spec < timeout spec"
  shows "Poll spec s =
           Some \<lparr>outcome = Succeeded, invocations = k + 1, sleeps = k,
                 final = after (condition spec) (k + 1) s\<rparr>"
  using poll_from_retries_then_success [OF assms, of 0] by (simp add: Poll_def after_0)

theorem Poll_retries_then_success_witness:
  "fst (scripted (\<lambda>n. if n < 3 then Retry else Success) 0) = Retry \<and>
   fst (scripted (\<lambda>n. if n < 3 then Retry else Success) 1) = Retry \<and>
   fst (scripted (\<lambda>n. if n < 3 then Retry else Success) 2) = Retry \<and>
   fst (scripted (\<lambda>n. if n < 3 then Retry else Success) 3) = Success \<and>
   (3::nat) * 500000000 < 2000000000 \<and>
   Poll \<lparr>interval = 500000000, timeout = 2000000000,
         condition = scripted (\<lambda>n. if n < 3 then Retry else Success)\<rparr> 0 =
     Some \<lparr>outcome = Succeeded, invocations = 4, sleeps = 3, final = 4\<rparr>"
  using Poll_retries_then_success [of 3 "\<lparr>interval = 500000000, timeout = 2000000000,
         condition = scripted (\<lambda>n. if n < 3 then Retry else Success)\<rparr>" 0]
  by (simp add: after_scripted) (simp add: scripted_def)

text \<open>
  C5. If the first invocation of the condition returns \<open>FatalError e\<close>, the poll stops at
  once and returns \<open>Failed e\<close>: one invocation, no sleep.
\<close>

theorem Poll_fatal_first:
  assumes "fst (condition spec s) = FatalError e"
  shows "Poll spec s =
           Some \<lparr>outcome = Failed e, invocations = 1, sleeps = 0,
                 final = snd (condition spec s)\<rparr>"
  using assms by (simp add: Poll_def poll_from.simps [of spec 0 s])

theorem Poll_fatal_first_witness:
  "fst (scripted (\<lambda>n. FatalError ''forbidden'') 0) = FatalError ''forbidden'' \<and>
   Poll \<lparr>interval = 500000000, timeout = 2000000000,
         condition = scripted (\<lambda>n. FatalError ''forbidden'')\<rparr> 0 =
     Some \<lparr>outcome = Failed ''forbidden'', invocations = 1, sleeps = 0, final = 1\<rparr>"
  using Poll_fatal_first [of "\<lparr>interval = 500000000, timeout = 2000000000,
         condition = scripted (\<lambda>n. FatalError ''forbidden'')\<rparr>" 0 "''forbidden''"]
  by (simp add: scripted_def)

text \<open>
  C6. With a positive interval and a positive timeout, a poll whose condition always
  returns \<open>Retry\<close> ends, with \<open>TimedOut\<close>, after \<open>timeout div interval + 1\<close> invocations of
  the condition: that many invocations are reported, the state it returns is the one that
  many invocations leave, and it has slept as often. The number differs from the quotient
  \<open>timeout / interval\<close> by at most one.
\<close>

theorem Poll_always_retry:
  assumes "\<forall>s'. fst (condition spec s') = Retry"
    and "0 < interval spec" and "0 < timeout spec"
  shows "\<exists>r. Poll spec s = Some r \<and> outcome r = TimedOut \<and>
             invocations r = timeout spec div interval spec + 1 \<and>
             sleeps r = timeout spec div interval spec + 1 \<and>
             final r = after (condition spec) (timeout spec div interval spec + 1) s \<and>
             \<bar>real (invocations r) - real (timeout spec) / real (interval spec)\<bar> \<le> 1"
proof -
  from poll_from_always_retry [OF assms, of 0 s]
  have r: "Poll spec s =
      Some \<lparr>outcome = TimedOut, invocations = timeout spec div interval spec + 1,
            sleeps = timeout spec div interval spec + 1,
            final = after (condition spec) (timeout spec div interval spec + 1) s\<rparr>"
    by (simp add: Poll_def after_0)
  have "real (timeout spec) / real (interval spec) =
        real (timeout spec div interval spec) +
        real (timeout spec mod interval spec) / real (interval spec)"
    by (rule of_nat_of_nat_div_aux)
  moreover have "0 \<le> real (timeout spec mod interval spec) / real (interval spec)"
    by simp
  moreover have "real (timeout spec mod interval spec) / real (interval spec) \<le> 1"
    using assms(2) by (simp add: less_imp_le)
  ultimately have
    "\<bar>real (timeout spec div interval spec + 1) - real (timeout spec) / real (interval spec)\<bar> \<le> 1"
    by simp
  with r show ?thesis by simp
qed

theorem Poll_always_retry_witness:
  "(\<forall>s'. fst (scripted (\<lambda>n. Retry) s') = Retry) \<and> (0::nat) < 500000000 \<and>
   (0::nat) < 1000000000 \<and>
   Poll \<lparr>interval = 500000000, timeout = 1000000000, condition = scripted (\<lambda>n. Retry)\<rparr> 0 =
     Some \<lparr>outcome = TimedOut, invocations = 3, sleeps = 3, final = 3\<rparr>"
proof -
  let ?spec = "\<lparr>interval = 500000000, timeout = 1000000000,
                condition = scripted (\<lambda>n. Retry)\<rparr>"
  from Poll_always_retry [of ?spec 0]
  obtain r where r: "Poll ?spec 0 = Some r" "outcome r = TimedOut" "invocations r = 3"
      "sleeps r = 3" "final r = 3"
    by (auto simp add: scripted_def after_scripted)
  then have "r = \<lparr>outcome = TimedOut, invocations = 3, sleeps = 3, final = 3\<rparr>"
    by simp
  with r(1) show ?thesis by (simp add: scripted_def)
qed

subsection \<open>Properties of the program\<close>

text \<open>The definitions that a concrete run unfolds.\<close>

lemmas run_defs =
  healthy_def main_def first_poll_def second_poll_def wait_Poll_def Poll_def poll_spec_def
  pollInterval_def timeoutPoll_def poll_from.simps deployment_condition_def
  collector_condition_def client_Get_def client_Create_def client_Delete_def println_def
  start_def after_first_poll_def after_second_poll_def probe_of_def error_of_def

lemma deployment_condition_result:
  "fst (deployment_condition c w) = (get_err c (gets w) = None, None)"
  by (simp add: deployment_condition_def client_Get_def split: option.splits)

lemma collector_condition_result:
  "fst (collector_condition c w) = (create_err c (creates w) = None, None)"
  by (simp add: collector_condition_def client_Create_def split: option.splits)

lemma poll_spec_no_fatal:
  assumes "\<forall>w. snd (fst (f w)) = None"
  shows "\<forall>s' e. fst (condition (poll_spec i t f) s') \<noteq> FatalError e"
  using assms by (simp add: poll_spec_def probe_of_def)

lemma Poll_program_outcome:
  assumes "\<forall>w. snd (fst (f w)) = None"
  shows "\<exists>r. Poll (poll_spec pollInterval t f) w = Some r \<and>
             (outcome r = Succeeded \<or> outcome r = TimedOut)"
proof -
  have "0 < interval (poll_spec pollInterval t f)"
    by (simp add: poll_spec_def pollInterval_def)
  from poll_from_returns [OF this, of 0 w]
  obtain r where r: "Poll (poll_spec pollInterval t f) w = Some r"
    by (auto simp add: Poll_def)
  then have "poll_from (poll_spec pollInterval t f) 0 w = Some r"
    by (simp add: Poll_def)
  from poll_from_no_fatal [OF this] poll_spec_no_fatal [OF assms]
  have "outcome r = Succeeded \<or> outcome r = TimedOut" by blast
  with r show ?thesis by blast
qed

lemma deployment_condition_delete_err:
  "deployment_condition (c\<lparr>delete_err := d\<rparr>) = deployment_condition c"
  by (rule ext) (simp add: deployment_condition_def client_Get_def cong: option.case_cong)

lemma collector_condition_delete_err:
  "collector_condition (c\<lparr>delete_err := d\<rparr>) = collector_condition c"
  by (rule ext) (simp add: collector_condition_def client_Create_def cong: option.case_cong)

lemma first_poll_delete_err:
  "first_poll poll (c\<lparr>delete_err := d\<rparr>) = first_poll poll c"
  by (simp add: first_poll_def timeoutPoll_def deployment_condition_delete_err)

lemma second_poll_delete_err:
  "second_poll poll (c\<lparr>delete_err := d\<rparr>) w = second_poll poll c w"
  by (simp add: second_poll_def timeoutPoll_def collector_condition_delete_err)

lemma after_first_poll_delete_err:
  "after_first_poll (c\<lparr>delete_err := d\<rparr>) err w = after_first_poll c err w"
  by (simp add: after_first_poll_def client_Delete_def)

lemma after_second_poll_delete_err:
  "after_second_poll (c\<lparr>delete_err := d\<rparr>) err w = after_second_poll c err w"
  by (simp add: after_second_poll_def client_Delete_def cong: option.case_cong)

text \<open>
  With the poller of the specification the program always ends: the interval of both
  polls is 500 ms, so each poll returns.
\<close>

lemma main_wait_Poll_returns: "\<exists>p. main wait_Poll c = Some p"
proof (cases "kubeconfig_err c = None \<and> client_err c = None")
  case False
  then show ?thesis by (auto simp add: main_def split: option.splits)
next
  case True
  have ret: "\<exists>r. wait_Poll pollInterval t f w = Some r" for t f w
  proof -
    have "0 < interval (poll_spec pollInterval t f)"
      by (simp add: poll_spec_def pollInterval_def)
    from poll_from_returns [OF this, of 0 w] show ?thesis
      by (auto simp add: wait_Poll_def Poll_def)
  qed
  from ret obtain r1 where r1: "first_poll wait_Poll c = Some r1"
    unfolding first_poll_def by blast
  from ret obtain r2 where
    "second_poll wait_Poll c (after_first_poll c (fst r1) (snd r1)) = Some r2"
    unfolding second_poll_def by blast
  with True r1 show ?thesis by (simp add: main_def)
qed

text \<open>
  C2. Whatever the poller is: the process exits with code 1 when the kubeconfig cannot be
  loaded and when the cluster client cannot be constructed; when both polls return, the
  exit code is 0 if the second poll returned no error and 1 if it returned one (a timeout
  among them), whatever the first poll returned; the error of the first poll, a timeout
  among them, is only printed.
\<close>

theorem main_exit_code:
  "(kubeconfig_err c \<noteq> None \<longrightarrow> (\<exists>p. main poll c = Some p \<and> exit_code p = 1)) \<and>
   (kubeconfig_err c = None \<and> client_err c \<noteq> None \<longrightarrow>
      (\<exists>p. main poll c = Some p \<and> exit_code p = 1)) \<and>
   (kubeconfig_err c = None \<and> client_err c = None \<and>
    first_poll poll c = Some (err1, w1) \<and>
    second_poll poll c (after_first_poll c err1 w1) = Some (err2, w2) \<longrightarrow>
      (\<exists>p. main poll c = Some p \<and> exit_code p = (if err2 = None then 0 else 1)) \<and>
      (\<forall>e. err1 = Some e \<longrightarrow> Stdout e \<in> set (trace (after_first_poll c err1 w1))))"
  by (auto simp add: main_def after_second_poll_def after_first_poll_def println_def
      client_Delete_def)

theorem main_exit_code_witness:
  "(\<exists>p. main wait_Poll (healthy\<lparr>kubeconfig_err := Some ''no such file''\<rparr>) = Some p \<and>
        exit_code p = 1) \<and>
   (\<exists>p. main wait_Poll (healthy\<lparr>client_err := Some ''no host''\<rparr>) = Some p \<and>
        exit_code p = 1) \<and>
   (\<exists>w1 w2 p.
      first_poll wait_Poll healthy = Some (None, w1) \<and>
      second_poll wait_Poll healthy (after_first_poll healthy None w1) = Some (None, w2) \<and>
      main wait_Poll healthy = Some p \<and> exit_code p = 0) \<and>
   (\<exists>w1 w2 p.
      first_poll wait_Poll (healthy\<lparr>get_err := (\<lambda>n. Some ''not found'')\<rparr>) =
        Some (Some ErrWaitTimeout, w1) \<and>
      second_poll wait_Poll (healthy\<lparr>get_err := (\<lambda>n. Some ''not found'')\<rparr>)
        (after_first_poll (healthy\<lparr>get_err := (\<lambda>n. Some ''not found'')\<rparr>)
           (Some ErrWaitTimeout) w1) = Some (None, w2) \<and>
      main wait_Poll (healthy\<lparr>get_err := (\<lambda>n. Some ''not found'')\<rparr>) = Some p \<and>
      exit_code p = 0 \<and>
      Stdout ErrWaitTimeout \<in>
        set (trace (after_first_poll (healthy\<lparr>get_err := (\<lambda>n. Some ''not found'')\<rparr>)
                      (Some ErrWaitTimeout) w1))) \<and>
   (\<exists>w1 w2 p.
      first_poll wait_Poll (healthy\<lparr>create_err := (\<lambda>n. Some ''no webhook'')\<rparr>) =
        Some (None, w1) \<and>
      second_poll wait_Poll (healthy\<lparr>create_err := (\<lambda>n. Some ''no webhook'')\<rparr>)
        (after_first_poll (healthy\<lparr>create_err := (\<lambda>n. Some ''no webhook'')\<rparr>) None w1) =
        Some (Some ErrWaitTimeout, w2) \<and>
      main wait_Poll (healthy\<lparr>create_err := (\<lambda>n. Some ''no webhook'')\<rparr>) = Some p \<and>
      exit_code p = 1)"
proof -
  let ?A = "healthy\<lparr>kubeconfig_err := Some ''no such file''\<rparr>"
  let ?B = "healthy\<lparr>client_err := Some ''no host''\<rparr>"
  let ?D = "healthy\<lparr>get_err := (\<lambda>n. Some ''not found'')\<rparr>"
  let ?E = "healthy\<lparr>create_err := (\<lambda>n. Some ''no webhook'')\<rparr>"
  have a: "\<exists>p. main wait_Poll ?A = Some p \<and> exit_code p = 1"
    using main_exit_code [of ?A wait_Poll] by (simp add: healthy_def)
  have b: "\<exists>p. main wait_Poll ?B = Some p \<and> exit_code p = 1"
    using main_exit_code [of ?B wait_Poll] by (simp add: healthy_def)
  obtain w1 where c1: "first_poll wait_Poll healthy = Some (None, w1)"
    by (simp add: run_defs)
  obtain w2 where c2:
    "second_poll wait_Poll healthy (after_first_poll healthy None w1) = Some (None, w2)"
    using c1 by (simp add: run_defs)
  have c: "\<exists>p. main wait_Poll healthy = Some p \<and> exit_code p = 0"
    using main_exit_code [of healthy wait_Poll None w1 None w2] c1 c2
    by (simp add: healthy_def)
  obtain v1 where d1: "first_poll wait_Poll ?D = Some (Some ErrWaitTimeout, v1)"
    by (simp add: run_defs)
  obtain v2 where d2:
    "second_poll wait_Poll ?D (after_first_poll ?D (Some ErrWaitTimeout) v1) = Some (None, v2)"
    using d1 by (simp add: run_defs)
  have d: "(\<exists>p. main wait_Poll ?D = Some p \<and> exit_code p = 0) \<and>
      Stdout ErrWaitTimeout \<in> set (trace (after_first_poll ?D (Some ErrWaitTimeout) v1))"
    using main_exit_code [of ?D wait_Poll "Some ErrWaitTimeout" v1 None v2] d1 d2
    by (simp add: healthy_def)
  obtain u1 where e1: "first_poll wait_Poll ?E = Some (None, u1)"
    by (simp add: run_defs)
  obtain u2 where e2:
    "second_poll wait_Poll ?E (after_first_poll ?E None u1) = Some (Some ErrWaitTimeout, u2)"
    using e1 by (simp add: run_defs)
  have e: "\<exists>p. main wait_Poll ?E = Some p \<and> exit_code p = 1"
    using main_exit_code [of ?E wait_Poll None u1 "Some ErrWaitTimeout" u2] e1 e2
    by (simp add: healthy_def)
  from a b c c1 c2 d d1 d2 e e1 e2 show ?thesis by blast
qed

text \<open>
  C9. Whatever the poller is and whatever the first poll returns, a timeout included: the
  program prints the first poll's error if there is one, then prints ``OTEL Collector
  Operator is deployed properly!'', deletes the collector, announces the second check, and
  runs the second poll from there; the rest of the run is decided by the second poll alone.
\<close>

theorem deployed_line_unconditional:
  "kubeconfig_err c = None \<and> client_err c = None \<and> first_poll poll c = Some (err1, w1) \<longrightarrow>
     trace (after_first_poll c err1 w1) =
       trace w1 @ (case err1 of None \<Rightarrow> [] | Some e \<Rightarrow> [Stdout e]) @
       [Stdout ''OTEL Collector Operator is deployed properly!'', Delete,
        Stdout ''Ensure the creation of OTEL Collectors is available''] \<and>
     main poll c =
       (case second_poll poll c (after_first_poll c err1 w1) of
          None \<Rightarrow> None
        | Some r2 \<Rightarrow> Some (after_second_poll c (fst r2) (snd r2)))"
  by (simp add: main_def after_first_poll_def println_def client_Delete_def split: option.splits)

theorem deployed_line_unconditional_witness:
  "(\<exists>w1. first_poll wait_Poll (healthy\<lparr>get_err := (\<lambda>n. Some ''not found'')\<rparr>) =
           Some (Some ErrWaitTimeout, w1) \<and>
         trace (after_first_poll (healthy\<lparr>get_err := (\<lambda>n. Some ''not found'')\<rparr>)
                  (Some ErrWaitTimeout) w1) =
           trace w1 @
           [Stdout ErrWaitTimeout, Stdout ''OTEL Collector Operator is deployed properly!'',
            Delete, Stdout ''Ensure the creation of OTEL Collectors is available'']) \<and>
   main wait_Poll (healthy\<lparr>get_err := (\<lambda>n. Some ''not found'')\<rparr>) =
     Some \<lparr>exit_code = 0,
           world = \<lparr>trace =
             [Stdout ''Waiting until the OTEL Collector Operator is deployed'',
              Get, Stdout ''not found'', Get, Stdout ''not found'', Get, Stdout ''not found'',
              Stdout ''timed out waiting for the condition'',
              Stdout ''OTEL Collector Operator is deployed properly!'', Delete,
              Stdout ''Ensure the creation of OTEL Collectors is available'',
              Create, Delete],
             gets = 3, creates = 1, deletes = 2\<rparr>\<rparr>"
proof -
  let ?D = "healthy\<lparr>get_err := (\<lambda>n. Some ''not found'')\<rparr>"
  obtain w1 where d1: "first_poll wait_Poll ?D = Some (Some ErrWaitTimeout, w1)"
    by (simp add: run_defs)
  have k: "kubeconfig_err ?D = None \<and> client_err ?D = None"
    by (simp add: healthy_def)
  from deployed_line_unconditional [of ?D wait_Poll "Some ErrWaitTimeout" w1] k d1
  have "trace (after_first_poll ?D (Some ErrWaitTimeout) w1) =
           trace w1 @
           [Stdout ErrWaitTimeout, Stdout ''OTEL Collector Operator is deployed properly!'',
            Delete, Stdout ''Ensure the creation of OTEL Collectors is available'']"
    by simp
  moreover have "main wait_Poll ?D =
     Some \<lparr>exit_code = 0,
           world = \<lparr>trace =
             [Stdout ''Waiting until the OTEL Collector Operator is deployed'',
              Get, Stdout ''not found'', Get, Stdout ''not found'', Get, Stdout ''not found'',
              Stdout ''timed out waiting for the condition'',
              Stdout ''OTEL Collector Operator is deployed properly!'', Delete,
              Stdout ''Ensure the creation of OTEL Collectors is available'',
              Create, Delete],
             gets = 3, creates = 1, deletes = 2\<rparr>\<rparr>"
    by (simp add: run_defs ErrWaitTimeout_def)
  ultimately show ?thesis using d1 by blast
qed

text \<open>
  C10. Whatever the poller is, the answers of \<^verbatim>\<open>Delete\<close> change nothing: the run (its trace
  and its exit code) is the same for every \<open>delete_err\<close>. So a run that exits with code 0
  exits with code 0 also when every \<^verbatim>\<open>Delete\<close> fails.
\<close>

theorem delete_errors_ignored:
  "main poll (c\<lparr>delete_err := d\<rparr>) = main poll c \<and>
   (\<forall>p. main poll c = Some p \<and> exit_code p = 0 \<longrightarrow>
        main poll (c\<lparr>delete_err := (\<lambda>n. Some e)\<rparr>) = Some p)"
proof -
  have "main poll (c\<lparr>delete_err := d'\<rparr>) = main poll c" for d'
    by (simp add: main_def first_poll_delete_err second_poll_delete_err
        after_first_poll_delete_err after_second_poll_delete_err cong: option.case_cong)
  then show ?thesis by simp
qed

theorem delete_errors_ignored_witness:
  "(\<exists>p. main wait_Poll healthy = Some p \<and> exit_code p = 0 \<and>
        main wait_Poll (healthy\<lparr>delete_err := (\<lambda>n. Some ''forbidden'')\<rparr>) = Some p) \<and>
   delete_err (healthy\<lparr>delete_err := (\<lambda>n. Some ''forbidden'')\<rparr>) 1 = Some ''forbidden''"
proof -
  obtain p where p: "main wait_Poll healthy = Some p" "exit_code p = 0"
    by (simp add: run_defs)
  with delete_errors_ignored [where poll = wait_Poll and c = healthy
      and d = "\<lambda>n. Some ''forbidden''" and e = "''forbidden''"]
  show ?thesis by auto
qed

text \<open>
  C7. For every sequence of answers of the cluster: a failed \<^verbatim>\<open>Get\<close> or \<^verbatim>\<open>Create\<close> is printed
  and turned into \<^verbatim>\<open>(false, nil)\<close>, a \<open>Retry\<close>; and the error that the poll hands to \<^verbatim>\<open>main\<close>
  is \<^verbatim>\<open>nil\<close> or the timeout error, never decided by a single probe's error.
\<close>

theorem probe_errors_become_retries:
  "(\<forall>e. get_err c (gets w) = Some e \<longrightarrow>
        fst (deployment_condition c w) = (False, None) \<and>
        probe_of (fst (deployment_condition c w)) = Retry \<and>
        trace (snd (deployment_condition c w)) = trace w @ [Get, Stdout e]) \<and>
   (\<forall>e. create_err c (creates w) = Some e \<longrightarrow>
        fst (collector_condition c w) = (False, None) \<and>
        probe_of (fst (collector_condition c w)) = Retry \<and>
        trace (snd (collector_condition c w)) = trace w @ [Create, Stdout e]) \<and>
   (\<forall>err w'. wait_Poll i t (deployment_condition c) w = Some (err, w') \<longrightarrow>
        err = None \<or> err = Some ErrWaitTimeout) \<and>
   (\<forall>err w'. wait_Poll i t (collector_condition c) w = Some (err, w') \<longrightarrow>
        err = None \<or> err = Some ErrWaitTimeout)"
proof -
  have esc: "err = None \<or> err = Some ErrWaitTimeout"
    if nf: "\<forall>w. snd (fst (f w)) = None" and res: "wait_Poll i t f w = Some (err, w')"
    for f err w'
  proof -
    from res obtain r where r: "poll_from (poll_spec i t f) 0 w = Some r"
      and err: "err = error_of (outcome r)"
      by (auto simp add: wait_Poll_def Poll_def split: option.splits)
    from poll_from_no_fatal [OF r] poll_spec_no_fatal [OF nf]
    have "outcome r = Succeeded \<or> outcome r = TimedOut" by blast
    with err show ?thesis by (auto simp add: error_of_def)
  qed
  have nd: "\<forall>w. snd (fst (deployment_condition c w)) = None"
    and nc: "\<forall>w. snd (fst (collector_condition c w)) = None"
    by (simp_all add: deployment_condition_result collector_condition_result)
  have d: "\<forall>e. get_err c (gets w) = Some e \<longrightarrow>
        fst (deployment_condition c w) = (False, None) \<and>
        probe_of (fst (deployment_condition c w)) = Retry \<and>
        trace (snd (deployment_condition c w)) = trace w @ [Get, Stdout e]"
    by (simp add: deployment_condition_def client_Get_def println_def probe_of_def)
  have cr: "\<forall>e. create_err c (creates w) = Some e \<longrightarrow>
        fst (collector_condition c w) = (False, None) \<and>
        probe_of (fst (collector_condition c w)) = Retry \<and>
        trace (snd (collector_condition c w)) = trace w @ [Create, Stdout e]"
    by (simp add: collector_condition_def client_Create_def println_def probe_of_def)
  from esc [OF nd] esc [OF nc] d cr show ?thesis by blast
qed

theorem probe_errors_become_retries_witness:
  "get_err (healthy\<lparr>get_err := (\<lambda>n. Some ''not found''),
                    create_err := (\<lambda>n. if n < 2 then Some ''no webhook'' else None)\<rparr>)
     (gets start) = Some ''not found'' \<and>
   fst (deployment_condition
     (healthy\<lparr>get_err := (\<lambda>n. Some ''not found''),
              create_err := (\<lambda>n. if n < 2 then Some ''no webhook'' else None)\<rparr>) start) =
     (False, None) \<and>
   trace (snd (deployment_condition
     (healthy\<lparr>get_err := (\<lambda>n. Some ''not found''),
              create_err := (\<lambda>n. if n < 2 then Some ''no webhook'' else None)\<rparr>) start)) =
     [Get, Stdout ''not found''] \<and>
   (\<exists>w'. wait_Poll pollInterval 1000000000
           (deployment_condition
              (healthy\<lparr>get_err := (\<lambda>n. Some ''not found''),
                 create_err := (\<lambda>n. if n < 2 then Some ''no webhook'' else None)\<rparr>))
           start = Some (Some ErrWaitTimeout, w')) \<and>
   create_err (healthy\<lparr>get_err := (\<lambda>n. Some ''not found''),
                       create_err := (\<lambda>n. if n < 2 then Some ''no webhook'' else None)\<rparr>)
     (creates start) = Some ''no webhook'' \<and>
   fst (collector_condition
     (healthy\<lparr>get_err := (\<lambda>n. Some ''not found''),
              create_err := (\<lambda>n. if n < 2 then Some ''no webhook'' else None)\<rparr>) start) =
     (False, None) \<and>
   (\<exists>w'. wait_Poll pollInterval 1000000000
           (collector_condition
              (healthy\<lparr>get_err := (\<lambda>n. Some ''not found''),
                 create_err := (\<lambda>n. if n < 2 then Some ''no webhook'' else None)\<rparr>))
           start = Some (None, w'))"
proof -
  let ?F = "healthy\<lparr>get_err := (\<lambda>n. Some ''not found''),
                    create_err := (\<lambda>n. if n < 2 then Some ''no webhook'' else None)\<rparr>"
  have g: "get_err ?F (gets start) = Some ''not found''"
    and c: "create_err ?F (creates start) = Some ''no webhook''"
    by (simp_all add: healthy_def start_def)
  obtain v where v: "wait_Poll pollInterval 1000000000 (deployment_condition ?F) start =
      Some (Some ErrWaitTimeout, v)"
    by (simp add: run_defs)
  obtain u where u: "wait_Poll pollInterval 1000000000 (collector_condition ?F) start =
      Some (None, u)"
    by (simp add: run_defs)
  from probe_errors_become_retries
    [where c = ?F and w = start and i = pollInterval and t = 1000000000] g c v u
  have "fst (deployment_condition ?F start) = (False, None)"
    and "trace (snd (deployment_condition ?F start)) = [Get, Stdout ''not found'']"
    and "fst (collector_condition ?F start) = (False, None)"
    by (simp_all add: start_def)
  with g c v u show ?thesis by blast
qed

text \<open>
  C8. Both conditions of the program always return a \<^verbatim>\<open>nil\<close> error, so neither poll of the
  program can fail: from every state each of them ends, and ends in \<open>Succeeded\<close> or in
  \<open>TimedOut\<close>.
\<close>

theorem polls_never_fail:
  "snd (fst (deployment_condition c w)) = None \<and>
   snd (fst (collector_condition c w)) = None \<and>
   (\<exists>r. Poll (poll_spec pollInterval (timeoutPoll c) (deployment_condition c)) w = Some r \<and>
        (outcome r = Succeeded \<or> outcome r = TimedOut)) \<and>
   (\<exists>r. Poll (poll_spec pollInterval (timeoutPoll c) (collector_condition c)) w = Some r \<and>
        (outcome r = Succeeded \<or> outcome r = TimedOut))"
  using Poll_program_outcome [of "deployment_condition c" "timeoutPoll c" w]
    Poll_program_outcome [of "collector_condition c" "timeoutPoll c" w]
  by (simp add: deployment_condition_result collector_condition_result)

theorem polls_never_fail_witness:
  "snd (fst (deployment_condition (healthy\<lparr>get_err := (\<lambda>n. Some ''not found'')\<rparr>) start)) =
     None \<and>
   (\<exists>r. Poll (poll_spec pollInterval
                (timeoutPoll (healthy\<lparr>get_err := (\<lambda>n. Some ''not found'')\<rparr>))
                (deployment_condition (healthy\<lparr>get_err := (\<lambda>n. Some ''not found'')\<rparr>)))
           start = Some r \<and>
        outcome r = TimedOut \<and> invocations r = 3) \<and>
   (\<exists>r. Poll (poll_spec pollInterval
                (timeoutPoll (healthy\<lparr>get_err := (\<lambda>n. Some ''not found'')\<rparr>))
                (collector_condition (healthy\<lparr>get_err := (\<lambda>n. Some ''not found'')\<rparr>)))
           start = Some r \<and>
        outcome r = Succeeded \<and> invocations r = 1)"
proof -
  let ?D = "healthy\<lparr>get_err := (\<lambda>n. Some ''not found'')\<rparr>"
  from polls_never_fail [where c = ?D and w = start]
  have "snd (fst (deployment_condition ?D start)) = None" by blast
  moreover have "\<exists>r. Poll (poll_spec pollInterval (timeoutPoll ?D) (deployment_condition ?D))
      start = Some r \<and> outcome r = TimedOut \<and> invocations r = 3"
    by (simp add: run_defs)
  moreover have "\<exists>r. Poll (poll_spec pollInterval (timeoutPoll ?D) (collector_condition ?D))
      start = Some r \<and> outcome r = Succeeded \<and> invocations r = 1"
    by (simp add: run_defs)
  ultimately show ?thesis by blast
qed

end
